theory Spec2Isabelle
  imports Complex_Main
begin

section \<open>Configuration and basic data (main.py, lines 11--27)\<close>

text \<open>
  Samples are the values of numpy's floating-point numbers, read as real numbers.
  The block \<open>indata\<close> handed to the stream callback is a two-dimensional array
  (frames by channels): a list of frames, each frame the list of its channel samples.
\<close>

type_synonym sample = real
type_synonym frame = "sample list"
type_synonym chunk = "frame list"

definition SAMPLE_RATE :: int where "SAMPLE_RATE = 44100"
definition DURATION :: nat where "DURATION = 5"
definition CHANNELS :: nat where "CHANNELS = 1"
definition SAVE_PATH :: string where "SAVE_PATH = ''recordings/''"
definition DB_MIN :: real where "DB_MIN = - 60"
definition DB_MAX :: real where "DB_MAX = 0"

section \<open>The level meter (AudioRecorder.calculate\_db)\<close>

text \<open>
  \<open>np.mean(np.square(a))\<close> runs over every element of the array, whatever its shape:
  the squares are summed and divided by the number of elements.
\<close>

definition np_mean_square :: "chunk \<Rightarrow> real" where
  "np_mean_square a =
     sum_list (map (\<lambda>x. x * x) (concat a)) / real (length (concat a))"

definition calculate_db :: "chunk \<Rightarrow> real" where
  "calculate_db audio_data =
     (if length audio_data = 0 then DB_MIN
      else let rms = sqrt (np_mean_square audio_data);
               db = (if rms > 0 then 20 * log 10 rms else DB_MIN)
           in max (min db DB_MAX) DB_MIN)"

section \<open>Exceptions\<close>

text \<open>
  The code separates two kinds of exception only: the subclasses of Python's
  \<open>Exception\<close>, which every \<open>except Exception\<close> clause catches, and
  \<open>KeyboardInterrupt\<close>, which passes through those clauses and is caught by the
  outer handler of \<open>main\<close>. An error carries its message.
\<close>

datatype exn = Exception string | KeyboardInterrupt

section \<open>The input stream and the recorder's state\<close>

text \<open>
  A \<open>sounddevice.InputStream\<close> is open from its construction until \<open>close()\<close>, and
  delivers blocks to its callback only between \<open>start()\<close> and \<open>stop()\<close>. The
  library's \<open>stop()\<close> and \<open>close()\<close> are called with their default
  \<open>ignore_errors=True\<close> and report no error; the property \<open>active\<close> is false for
  a stream that is stopped or closed. Used in a \<open>with\<close> statement a stream is started on
  entry and stopped and closed on exit.

  The stream objects created so far live in a store (\<open>streams\<close>); \<open>self.stream\<close>
  holds a reference into it, so that an object the recorder no longer refers to keeps
  its state. The rest of the state is the recorder's fields, the module's global
  \<open>LOCAL_SAMPLE_RATE\<close> (unset until assigned) and the file system.
\<close>

datatype stream_status = Stopped | Active | Closed

record input_stream =
  samplerate :: int
  channels :: nat
  blocksize :: int
  status :: stream_status

datatype dtype = Float32 | Float64 | Int16

record ndarray =
  dtype :: dtype
  frames :: "frame list"

record wav_file =
  nchannels :: nat
  sampwidth :: nat
  framerate :: int
  nframes :: nat
  payload :: ndarray

record world =
  stream :: "nat option"
  audio_buffer :: "frame list"
  is_recording :: bool
  current_db :: real
  LOCAL_SAMPLE_RATE :: "int option"
  streams :: "input_stream list"
  dirs :: "string set"
  files :: "string \<rightharpoonup> wav_file"

text \<open>Python's \<open>int(x)\<close> on a float truncates towards zero.\<close>

definition py_int :: "real \<Rightarrow> int" where
  "py_int x = (if x \<ge> 0 then \<lfloor>x\<rfloor> else \<lceil>x\<rceil>)"

text \<open>
  \<open>AudioRecorder.__init__\<close>: the argument is the outcome of the device query, an
  exception or the device's \<open>default_samplerate\<close>; \<open>fs_dirs\<close> and \<open>fs_files\<close>
  are the file system the program starts in.
\<close>

definition AudioRecorder_init ::
  "exn + real \<Rightarrow> string set \<Rightarrow> (string \<rightharpoonup> wav_file) \<Rightarrow> exn + world" where
  "AudioRecorder_init device_info fs_dirs fs_files =
     (case device_info of
        Inl (Exception m) \<Rightarrow> Inl (Exception ''Failed to initialize audio device'')
      | Inl KeyboardInterrupt \<Rightarrow> Inl KeyboardInterrupt
      | Inr default_samplerate \<Rightarrow>
          Inr \<lparr> stream = None, audio_buffer = [], is_recording = False,
                current_db = DB_MIN,
                LOCAL_SAMPLE_RATE =
                  (if default_samplerate \<noteq> real_of_int SAMPLE_RATE
                   then Some (py_int default_samplerate) else None),
                streams = [], dirs = fs_dirs, files = fs_files \<rparr>)"

definition stream_active :: "world \<Rightarrow> bool" where
  "stream_active w =
     (case stream w of
        None \<Rightarrow> False
      | Some i \<Rightarrow> i < length (streams w) \<and> status (streams w ! i) = Active)"

definition set_status :: "stream_status \<Rightarrow> world \<Rightarrow> world" where
  "set_status st w =
     (case stream w of
        None \<Rightarrow> w
      | Some i \<Rightarrow> w\<lparr>streams := (streams w)[i := (streams w ! i)\<lparr>status := st\<rparr>]\<rparr>)"

definition stream_start :: "world \<Rightarrow> world" where
  "stream_start w = set_status Active w"

definition stream_stop :: "world \<Rightarrow> world" where
  "stream_stop w = (if stream_active w then set_status Stopped w else w)"

definition stream_close :: "world \<Rightarrow> world" where
  "stream_close w = set_status Closed w"

text \<open>
  What the audio device and the driver do during one call of \<open>record\<close>: whether
  constructing the stream raises, whether starting it raises, the blocks the driver
  hands to the callback while the stream is active, and whether the body of the
  \<open>with\<close> statement (the prints and \<open>sd.sleep\<close>) raises.
\<close>

record capture_env =
  open_raises :: "exn option"
  start_raises :: "exn option"
  delivered :: "chunk list"
  body_raises :: "exn option"

definition new_stream :: input_stream where
  "new_stream = \<lparr> samplerate = SAMPLE_RATE, channels = CHANNELS,
                   blocksize = SAMPLE_RATE div 10, status = Stopped \<rparr>"

definition initialize_stream :: "capture_env \<Rightarrow> world \<Rightarrow> (exn + bool) \<times> world" where
  "initialize_stream env w =
     (let w1 = (if stream_active w then stream_close (stream_stop w) else w)
      in case open_raises env of
           Some (Exception m) \<Rightarrow> (Inr False, w1)
         | Some KeyboardInterrupt \<Rightarrow> (Inl KeyboardInterrupt, w1)
         | None \<Rightarrow>
             (Inr True, w1\<lparr>stream := Some (length (streams w1)),
                             streams := streams w1 @ [new_stream]\<rparr>))"

text \<open>
  \<open>_audio_callback\<close>. The driver's \<open>status\<close> flag is only logged and
  \<open>draw_vu_meter\<close> only prints; neither changes the state.
\<close>

definition audio_callback :: "chunk \<Rightarrow> world \<Rightarrow> world" where
  "audio_callback indata w =
     (if is_recording w
      then w\<lparr>audio_buffer := audio_buffer w @ indata,
              current_db := calculate_db indata\<rparr>
      else w)"

text \<open>
  \<open>np.array\<close> of the accumulated rows: the blocks are \<open>float32\<close> (the library's
  default sample format), and the array of an empty list is a \<open>float64\<close> array.
\<close>

definition np_array :: "frame list \<Rightarrow> ndarray" where
  "np_array buf = \<lparr> dtype = (if buf = [] then Float64 else Float32), frames = buf \<rparr>"

text \<open>
  The \<open>with self.stream:\<close> statement of \<open>record\<close>: when \<open>start()\<close> raises on
  entry the exit actions do not run; otherwise the callback receives the delivered
  blocks, and the stream is stopped and closed on exit whether or not the body raised.
\<close>

definition with_stream :: "capture_env \<Rightarrow> world \<Rightarrow> exn option \<times> world" where
  "with_stream env w =
     (case start_raises env of
        Some e \<Rightarrow> (Some e, w)
      | None \<Rightarrow>
          (let w1 = stream_start w;
               w2 = fold audio_callback (delivered env) w1;
               w3 = stream_close (stream_stop w2)
           in (body_raises env, w3)))"

text \<open>
  \<open>record\<close>. The length of the sleep decides only how many blocks the driver delivers,
  which \<open>capture_env\<close> already says. \<open>record_finally\<close> is the \<open>finally\<close>
  block; the handler before it logs and raises the same exception again.
\<close>

definition record_finally :: "world \<Rightarrow> world" where
  "record_finally w =
     (let w1 = w\<lparr>is_recording := False\<rparr>
      in if stream_active w1 then stream_close (stream_stop w1) else w1)"

definition record_audio :: "capture_env \<Rightarrow> nat \<Rightarrow> world \<Rightarrow> (exn + ndarray) \<times> world" where
  "record_audio env duration w =
     (let w0 = w\<lparr>audio_buffer := [], is_recording := False\<rparr>
      in case initialize_stream env w0 of
           (Inl e, w1) \<Rightarrow> (Inl e, w1)
         | (Inr False, w1) \<Rightarrow> (Inl (Exception ''Failed to initialize audio stream''), w1)
         | (Inr True, w1) \<Rightarrow>
             (case with_stream env (w1\<lparr>is_recording := True\<rparr>) of
                (Some e, w2) \<Rightarrow> (Inl e, record_finally w2)
              | (None, w2) \<Rightarrow>
                  (let w3 = record_finally w2
                   in (Inr (np_array (audio_buffer w3)), w3))))"

section \<open>Saving a window (AudioRecorder.save\_audio)\<close>

definition itemsize :: "dtype \<Rightarrow> nat" where
  "itemsize d = (case d of Float32 \<Rightarrow> 4 | Float64 \<Rightarrow> 8 | Int16 \<Rightarrow> 2)"

text \<open>\<open>len(a.tobytes())\<close>: every element of the array takes \<open>itemsize\<close> bytes.\<close>

definition nbytes :: "ndarray \<Rightarrow> nat" where
  "nbytes a = itemsize (dtype a) * length (concat (frames a))"

definition os_path_join :: "string \<Rightarrow> string \<Rightarrow> string" where
  "os_path_join a b =
     (if b \<noteq> [] \<and> hd b = CHR ''/'' then b
      else if a = [] \<or> last a = CHR ''/'' then a @ b
      else a @ ''/'' @ b)"

text \<open>
  The file system's part in one call of \<open>save_audio\<close>: whether \<open>os.makedirs\<close>
  raises and whether opening the file for writing raises. The \<open>wave\<close> module
  counts the frames of a file as the number of bytes written divided by
  \<open>sampwidth * nchannels\<close>; the file keeps the bytes of the array it was given.
\<close>

record disk_env =
  makedirs_raises :: "exn option"
  wave_open_raises :: "exn option"

definition save_audio ::
  "disk_env \<Rightarrow> ndarray \<Rightarrow> string \<Rightarrow> world \<Rightarrow> (exn + string) \<times> world" where
  "save_audio disk audio_data filename w =
     (case makedirs_raises disk of
        Some e \<Rightarrow> (Inl e, w)
      | None \<Rightarrow>
          (let w1 = w\<lparr>dirs := insert SAVE_PATH (dirs w)\<rparr>;
               filepath = os_path_join SAVE_PATH filename
           in case wave_open_raises disk of
                Some e \<Rightarrow> (Inl e, w1)
              | None \<Rightarrow>
                  (Inr filepath,
                   w1\<lparr>files := (files w1)(filepath \<mapsto>
                        \<lparr> nchannels = CHANNELS, sampwidth = 2, framerate = SAMPLE_RATE,
                          nframes = nbytes audio_data div (2 * CHANNELS),
                          payload = audio_data \<rparr>)\<rparr>)))"

section \<open>The classifier wrapper (pretrained\_detector.py)\<close>

text \<open>
  The network and the resampler are external: \<open>model\<close> maps a waveform to the score
  matrix (one row per analysis frame, one column per class) or raises, and
  \<open>resample\<close> is \<open>librosa.resample\<close>. \<open>class_names\<close> is the list read at
  construction.
\<close>

record detector =
  model :: "real list \<Rightarrow> exn + real list list"
  resample :: "real list \<Rightarrow> int \<Rightarrow> int \<Rightarrow> exn + real list"
  class_names :: "string list"

definition gunshot_classes :: "nat list" where
  "gunshot_classes = [417, 418, 419]"

text \<open>\<open>np.max\<close> and \<open>np.min\<close> of an array without elements raise \<open>ValueError\<close>.\<close>

definition zero_size :: exn where
  "zero_size = Exception ''zero-size array to reduction operation which has no identity''"

fun np_max :: "real list \<Rightarrow> exn + real" where
  "np_max [] = Inl zero_size"
| "np_max (x # xs) = Inr (fold max xs x)"

text \<open>
  \<open>process_audio\<close>: the array is flattened, divided by its largest absolute value
  when that is positive, and resampled to 16 kHz unless it is at that rate already.
  Its handler logs and raises the same exception again. The conversion to
  \<open>float32\<close> rounds and is the identity on the values as read here. The last debug
  message evaluates \<open>np.min\<close> and \<open>np.max\<close> of the result.
\<close>

definition process_audio :: "detector \<Rightarrow> ndarray \<Rightarrow> int \<Rightarrow> exn + real list" where
  "process_audio det audio_data sample_rate =
     (let a = concat (frames audio_data)
      in case np_max (map abs a) of
           Inl e \<Rightarrow> Inl e
         | Inr m \<Rightarrow>
             (let a1 = (if m > 0 then map (\<lambda>x. x / m) a else a)
              in case (if sample_rate \<noteq> 16000 then resample det a1 sample_rate 16000
                       else Inr a1) of
                   Inl e \<Rightarrow> Inl e
                 | Inr a2 \<Rightarrow> (if a2 = [] then Inl zero_size else Inr a2)))"

text \<open>Index of the first largest element (\<open>np.argmax\<close>).\<close>

definition argmax :: "real list \<Rightarrow> nat" where
  "argmax xs = length (takeWhile (\<lambda>v. v < fold max xs (hd xs)) xs)"

text \<open>
  The body of the \<open>try\<close> in \<open>detect\<close>. Reducing a score matrix without rows
  raises; selecting the gunshot columns raises \<open>IndexError\<close> when the matrix has too
  few columns; the name of the strongest gunshot class is looked up only when the
  score is positive. The logging of the five strongest classes guards its index and
  does not affect the result.
\<close>

definition detect_body :: "detector \<Rightarrow> ndarray \<Rightarrow> int \<Rightarrow> exn + real" where
  "detect_body det audio_data sample_rate =
     (case process_audio det audio_data sample_rate of
        Inl e \<Rightarrow> Inl e
      | Inr processed_audio \<Rightarrow>
          (case model det processed_audio of
             Inl e \<Rightarrow> Inl e
           | Inr scores \<Rightarrow>
               if scores = [] then Inl zero_size
               else if list_ex (\<lambda>row. length row \<le> 419) scores
               then Inl (Exception ''index out of bounds'')
               else
                 (let gunshot_probs = map (\<lambda>row. map (\<lambda>i. row ! i) gunshot_classes) scores
                  in case np_max (concat gunshot_probs) of
                       Inl e \<Rightarrow> Inl e
                     | Inr max_gunshot_prob \<Rightarrow>
                         (let col_max = map (\<lambda>j. fold max (map (\<lambda>r. r ! j) gunshot_probs)
                                                   (hd gunshot_probs ! j)) [0, 1, 2];
                              max_gunshot_class = gunshot_classes ! argmax col_max
                          in if max_gunshot_prob > 0
                                \<and> length (class_names det) \<le> max_gunshot_class
                             then Inl (Exception ''list index out of range'')
                             else Inr max_gunshot_prob))))"

definition detect :: "detector \<Rightarrow> ndarray \<Rightarrow> int \<Rightarrow> exn + real" where
  "detect det audio_data sample_rate =
     (case detect_body det audio_data sample_rate of
        Inl (Exception m) \<Rightarrow> Inr 0
      | Inl KeyboardInterrupt \<Rightarrow> Inl KeyboardInterrupt
      | Inr max_gunshot_prob \<Rightarrow> Inr max_gunshot_prob)"

section \<open>The monitoring loop (main, lines 179--208)\<close>

text \<open>
  \<open>datetime.now().strftime("%Y%m%d_%H%M%S")\<close>: the year in four digits, the other
  fields in two, zero-padded.
\<close>

record datetime =
  year :: nat
  month :: nat
  day :: nat
  hour :: nat
  minute :: nat
  second :: nat

definition digit :: "nat \<Rightarrow> char" where
  "digit n = ''0123456789'' ! (n mod 10)"

definition two_digits :: "nat \<Rightarrow> string" where
  "two_digits n = [digit (n div 10), digit n]"

definition four_digits :: "nat \<Rightarrow> string" where
  "four_digits n = [digit (n div 1000), digit (n div 100), digit (n div 10), digit n]"

definition strftime :: "datetime \<Rightarrow> string" where
  "strftime t = four_digits (year t) @ two_digits (month t) @ two_digits (day t) @ ''_''
                @ two_digits (hour t) @ two_digits (minute t) @ two_digits (second t)"

text \<open>What the loop prints, logs and waits for.\<close>

datatype event =
    Probability_printed real
  | Gunshot_saved string
  | Error_logged string
  | Reinit_logged
  | Slept nat
  | Shutdown_logged

text \<open>
  The surroundings of one iteration: the device during \<open>record\<close>, the file system
  during \<open>save_audio\<close>, the clock, and whether the user interrupts the wait of the
  error handler (\<open>sd.sleep(1000)\<close> sleeps and raises nothing of its own).
\<close>

record iter_env =
  capture :: capture_env
  disk :: disk_env
  now :: datetime
  backoff_interrupted :: bool

text \<open>
  The body of the inner \<open>try\<close>. The classifier is the method
  \<open>detector.detect\<close>, passed as \<open>classify\<close>. The debug message after
  \<open>record\<close> evaluates \<open>np.min(audio_data)\<close>, which raises on an array without
  elements.
\<close>

definition loop_body ::
  "(ndarray \<Rightarrow> int \<Rightarrow> exn + real) \<Rightarrow> iter_env \<Rightarrow> world
     \<Rightarrow> exn option \<times> event list \<times> world" where
  "loop_body classify env w =
     (case record_audio (capture env) DURATION w of
        (Inl e, w1) \<Rightarrow> (Some e, [], w1)
      | (Inr audio_data, w1) \<Rightarrow>
          if concat (frames audio_data) = [] then (Some zero_size, [], w1)
          else
            (case classify audio_data SAMPLE_RATE of
               Inl e \<Rightarrow> (Some e, [], w1)
             | Inr probability \<Rightarrow>
                 if probability > 0.2
                 then
                   (case save_audio (disk env) audio_data
                           (''gunshot_'' @ strftime (now env) @ ''.wav'') w1 of
                      (Inl e, w2) \<Rightarrow> (Some e, [Probability_printed probability], w2)
                    | (Inr filepath, w2) \<Rightarrow>
                        (None, [Probability_printed probability, Gunshot_saved filepath], w2))
                 else (None, [Probability_printed probability], w1)))"

text \<open>
  One iteration with the inner handler: an \<open>Exception\<close> is logged, the loop waits
  one second and continues; a \<open>KeyboardInterrupt\<close>, from the body or during the
  wait, leaves the loop. The boolean tells whether the iteration was interrupted.
\<close>

definition main_iteration ::
  "(ndarray \<Rightarrow> int \<Rightarrow> exn + real) \<Rightarrow> iter_env \<Rightarrow> world
     \<Rightarrow> event list \<times> bool \<times> world" where
  "main_iteration classify env w =
     (case loop_body classify env w of
        (None, evs, w1) \<Rightarrow> (evs, False, w1)
      | (Some (Exception m), evs, w1) \<Rightarrow>
          (evs @ [Error_logged m, Reinit_logged, Slept 1000], backoff_interrupted env, w1)
      | (Some KeyboardInterrupt, evs, w1) \<Rightarrow> (evs, True, w1))"

text \<open>
  The \<open>while True\<close> loop, run against the surroundings of its first iterations:
  \<open>Running\<close> when all of them have been executed and the loop goes on,
  \<open>Shut_down\<close> when the outer handler caught a \<open>KeyboardInterrupt\<close>.
\<close>

datatype loop_status = Running | Shut_down

fun main_loop ::
  "(ndarray \<Rightarrow> int \<Rightarrow> exn + real) \<Rightarrow> iter_env list \<Rightarrow> world
     \<Rightarrow> event list \<times> loop_status \<times> world" where
  "main_loop classify [] w = ([], Running, w)"
| "main_loop classify (env # envs) w =
     (case main_iteration classify env w of
        (evs, True, w1) \<Rightarrow> (evs @ [Shutdown_logged], Shut_down, w1)
      | (evs, False, w1) \<Rightarrow>
          (case main_loop classify envs w1 of
             (evs', st, w2) \<Rightarrow> (evs @ evs', st, w2)))"

section \<open>Concrete surroundings used in the examples\<close>

text \<open>
  The state right after \<open>AudioRecorder()\<close> on a device whose default rate is the
  configured one, in an empty file system; a device and a file system on which nothing
  fails; and a fixed reading of the clock.
\<close>

definition idle_world :: world where
  "idle_world = \<lparr> stream = None, audio_buffer = [], is_recording = False,
     current_db = DB_MIN, LOCAL_SAMPLE_RATE = None, streams = [], dirs = {},
     files = Map.empty \<rparr>"

definition device_ok :: "chunk list \<Rightarrow> capture_env" where
  "device_ok cs = \<lparr> open_raises = None, start_raises = None, delivered = cs,
                     body_raises = None \<rparr>"

text \<open>A device on which the stream can be opened but not started.\<close>

definition device_start_fails :: capture_env where
  "device_start_fails = \<lparr> open_raises = None,
     start_raises = Some (Exception ''Error starting stream''), delivered = [],
     body_raises = None \<rparr>"

definition disk_ok :: disk_env where
  "disk_ok = \<lparr> makedirs_raises = None, wave_open_raises = None \<rparr>"

definition at_time :: datetime where
  "at_time = \<lparr> year = 2024, month = 1, day = 2, hour = 3, minute = 4, second = 5 \<rparr>"

text \<open>
  Two detectors: one whose network raises, and one whose network returns a single row of
  scores in which the three gunshot classes score 0.1, 0.9 and 0.3.
\<close>

definition det_fails :: detector where
  "det_fails = \<lparr> model = (\<lambda>x. Inl (Exception ''inference failed'')),
                  resample = (\<lambda>x r t. Inr x), class_names = [] \<rparr>"

definition det_scores :: detector where
  "det_scores = \<lparr> model = (\<lambda>x. Inr [replicate 417 0 @ [0.1, 0.9, 0.3]]),
                   resample = (\<lambda>x r t. Inr x), class_names = replicate 521 ''class'' \<rparr>"

text \<open>An iteration is interrupted when one of its external calls raises \<open>KeyboardInterrupt\<close>.\<close>

definition interrupted :: "iter_env \<Rightarrow> bool" where
  "interrupted env =
     (open_raises (capture env) = Some KeyboardInterrupt
      \<or> start_raises (capture env) = Some KeyboardInterrupt
      \<or> body_raises (capture env) = Some KeyboardInterrupt
      \<or> makedirs_raises (disk env) = Some KeyboardInterrupt
      \<or> wave_open_raises (disk env) = Some KeyboardInterrupt
      \<or> backoff_interrupted env)"

section \<open>Properties\<close>

subsection \<open>The level meter\<close>

lemma zero_squares:
  "\<forall>x \<in> set xs. x = (0::real) \<Longrightarrow> sum_list (map (\<lambda>x. x * x) xs) = 0"
  by (induction xs) simp_all

text \<open>
  Claim C7. For every block of samples, \<open>calculate_db\<close> returns a value between
  \<open>DB_MIN = -60\<close> and \<open>DB_MAX = 0\<close>; for the empty block it returns \<open>DB_MIN\<close>; and
  for a block whose samples are all zero (the root mean square is zero) it returns
  \<open>DB_MIN\<close>. The result is a real number in that interval, hence neither infinite nor
  undefined.
\<close>

theorem calculate_db_range:
  "DB_MIN = - 60 \<and> DB_MAX = 0
   \<and> DB_MIN \<le> calculate_db s \<and> calculate_db s \<le> DB_MAX
   \<and> calculate_db [] = DB_MIN
   \<and> ((\<forall>fr \<in> set s. \<forall>x \<in> set fr. x = 0) \<longrightarrow> calculate_db s = DB_MIN)"
proof -
  have bounds: "DB_MIN \<le> calculate_db s \<and> calculate_db s \<le> DB_MAX"
    by (simp add: calculate_db_def DB_MIN_def DB_MAX_def Let_def)
  have empty: "calculate_db [] = DB_MIN"
    by (simp add: calculate_db_def)
  have silent: "calculate_db s = DB_MIN" if z: "\<forall>fr \<in> set s. \<forall>x \<in> set fr. x = 0"
  proof -
    from z have "\<forall>x \<in> set (concat s). x = 0" by auto
    then have "sum_list (map (\<lambda>x. x * x) (concat s)) = 0"
      by (rule zero_squares)
    then have "np_mean_square s = 0"
      by (simp add: np_mean_square_def)
    then show ?thesis
      by (simp add: calculate_db_def DB_MIN_def DB_MAX_def)
  qed
  from bounds empty silent show ?thesis
    by (simp add: DB_MIN_def DB_MAX_def)
qed

theorem calculate_db_range_witness:
  "calculate_db [[0], [0]] = DB_MIN \<and> calculate_db [[0], [0]] = - 60"
proof -
  have h: "\<forall>fr \<in> set [[0], [0::real]]. \<forall>x \<in> set fr. x = 0" by simp
  from calculate_db_range [of "[[0], [0]]"] h
  have "calculate_db [[0], [0]] = DB_MIN" by blast
  then show ?thesis by (simp only: DB_MIN_def simp_thms)
qed

subsection \<open>Facts about one call of record\<close>

lemma set_status_fields [simp]:
  "audio_buffer (set_status st w) = audio_buffer w"
  "is_recording (set_status st w) = is_recording w"
  "files (set_status st w) = files w"
  "dirs (set_status st w) = dirs w"
  "stream (set_status st w) = stream w"
  by (simp_all add: set_status_def split: option.split)

lemma stream_ops_fields [simp]:
  "audio_buffer (stream_start w) = audio_buffer w"
  "is_recording (stream_start w) = is_recording w"
  "files (stream_start w) = files w"
  "audio_buffer (stream_stop w) = audio_buffer w"
  "is_recording (stream_stop w) = is_recording w"
  "files (stream_stop w) = files w"
  "audio_buffer (stream_close w) = audio_buffer w"
  "is_recording (stream_close w) = is_recording w"
  "files (stream_close w) = files w"
  by (simp_all add: stream_start_def stream_stop_def stream_close_def)

lemma fold_callback_recording [simp]:
  "is_recording (fold audio_callback cs w) = is_recording w"
  by (induction cs arbitrary: w) (simp_all add: audio_callback_def)

lemma fold_callback_files [simp]:
  "files (fold audio_callback cs w) = files w"
  by (induction cs arbitrary: w) (simp_all add: audio_callback_def)

lemma fold_callback_buffer:
  "audio_buffer (fold audio_callback cs w)
     = (if is_recording w then audio_buffer w @ concat cs else audio_buffer w)"
  by (induction cs arbitrary: w) (simp_all add: audio_callback_def)

lemma record_finally_fields [simp]:
  "audio_buffer (record_finally w) = audio_buffer w"
  "is_recording (record_finally w) = False"
  "files (record_finally w) = files w"
  by (simp_all add: record_finally_def Let_def)

lemma initialize_stream_fields:
  assumes "initialize_stream env w = (r, w1)"
  shows "audio_buffer w1 = audio_buffer w" "is_recording w1 = is_recording w"
    "files w1 = files w"
  using assms
  by (auto simp: initialize_stream_def Let_def split: option.splits exn.splits if_splits)

lemma initialize_stream_result:
  "fst (initialize_stream env w) =
     (case open_raises env of None \<Rightarrow> Inr True | Some (Exception m) \<Rightarrow> Inr False
      | Some KeyboardInterrupt \<Rightarrow> Inl KeyboardInterrupt)"
  by (simp add: initialize_stream_def Let_def split: option.splits exn.splits)

lemma with_stream_fields:
  assumes "with_stream env w = (r, w1)"
  shows "is_recording w1 = is_recording w" "files w1 = files w"
    "r = (case start_raises env of Some e \<Rightarrow> Some e | None \<Rightarrow> body_raises env)"
    "audio_buffer w1 = (if start_raises env = None \<and> is_recording w
                        then audio_buffer w @ concat (delivered env) else audio_buffer w)"
  using assms
  by (auto simp: with_stream_def Let_def fold_callback_buffer split: option.splits)

lemma record_audio_recording_off:
  "is_recording (snd (record_audio env d w)) = False"
proof -
  obtain r w1 where i: "initialize_stream env (w\<lparr>audio_buffer := [], is_recording := False\<rparr>) = (r, w1)"
    by (cases "initialize_stream env (w\<lparr>audio_buffer := [], is_recording := False\<rparr>)")
  obtain r2 w2 where ws: "with_stream env (w1\<lparr>is_recording := True\<rparr>) = (r2, w2)"
    by (cases "with_stream env (w1\<lparr>is_recording := True\<rparr>)")
  from initialize_stream_fields(2)[OF i] have "is_recording w1 = False" by simp
  then show ?thesis
    using i ws
    by (simp add: record_audio_def Let_def split: sum.splits bool.splits option.splits)
qed

lemma record_audio_files:
  "files (snd (record_audio env d w)) = files w"
proof -
  obtain r w1 where i: "initialize_stream env (w\<lparr>audio_buffer := [], is_recording := False\<rparr>) = (r, w1)"
    by (cases "initialize_stream env (w\<lparr>audio_buffer := [], is_recording := False\<rparr>)")
  obtain r2 w2 where ws: "with_stream env (w1\<lparr>is_recording := True\<rparr>) = (r2, w2)"
    by (cases "with_stream env (w1\<lparr>is_recording := True\<rparr>)")
  from initialize_stream_fields(3)[OF i] have "files w1 = files w" by simp
  moreover from with_stream_fields(2)[OF ws] have "files w2 = files w1" by simp
  ultimately show ?thesis
    using i ws
    by (simp add: record_audio_def Let_def split: sum.splits bool.splits option.splits)
qed

lemma record_audio_result:
  "fst (record_audio env d w) =
     (case open_raises env of
        Some (Exception m) \<Rightarrow> Inl (Exception ''Failed to initialize audio stream'')
      | Some KeyboardInterrupt \<Rightarrow> Inl KeyboardInterrupt
      | None \<Rightarrow>
          (case start_raises env of
             Some e \<Rightarrow> Inl e
           | None \<Rightarrow>
               (case body_raises env of
                  Some e \<Rightarrow> Inl e
                | None \<Rightarrow> Inr (np_array (concat (delivered env))))))"
proof -
  obtain r w1 where i: "initialize_stream env (w\<lparr>audio_buffer := [], is_recording := False\<rparr>) = (r, w1)"
    by (cases "initialize_stream env (w\<lparr>audio_buffer := [], is_recording := False\<rparr>)")
  obtain r2 w2 where ws: "with_stream env (w1\<lparr>is_recording := True\<rparr>) = (r2, w2)"
    by (cases "with_stream env (w1\<lparr>is_recording := True\<rparr>)")
  from initialize_stream_fields(1)[OF i] have b1: "audio_buffer w1 = []" by simp
  from initialize_stream_result[of env "w\<lparr>audio_buffer := [], is_recording := False\<rparr>"] i
  have r: "r = (case open_raises env of None \<Rightarrow> Inr True | Some (Exception m) \<Rightarrow> Inr False
      | Some KeyboardInterrupt \<Rightarrow> Inl KeyboardInterrupt)" by simp
  from with_stream_fields(3,4)[OF ws] b1
  have r2: "r2 = (case start_raises env of Some e \<Rightarrow> Some e | None \<Rightarrow> body_raises env)"
    and b2: "audio_buffer w2 = (if start_raises env = None then concat (delivered env) else [])"
    by simp_all
  show ?thesis
    using i ws r r2 b2
    by (auto simp: record_audio_def Let_def split: sum.splits bool.splits option.splits exn.splits)
qed

lemma record_audio_buffer:
  "record_audio env d w = (Inr a, w1) \<Longrightarrow> audio_buffer w1 = concat (delivered env)"
proof -
  assume ra: "record_audio env d w = (Inr a, w1)"
  obtain r w1' where i: "initialize_stream env (w\<lparr>audio_buffer := [], is_recording := False\<rparr>) = (r, w1')"
    by (cases "initialize_stream env (w\<lparr>audio_buffer := [], is_recording := False\<rparr>)")
  obtain r2 w2 where ws: "with_stream env (w1'\<lparr>is_recording := True\<rparr>) = (r2, w2)"
    by (cases "with_stream env (w1'\<lparr>is_recording := True\<rparr>)")
  from initialize_stream_fields(1)[OF i] have b1: "audio_buffer w1' = []" by simp
  from with_stream_fields(3,4)[OF ws] b1
  have r2: "r2 = (case start_raises env of Some e \<Rightarrow> Some e | None \<Rightarrow> body_raises env)"
    and b2: "audio_buffer w2 = (if start_raises env = None then concat (delivered env) else [])"
    by simp_all
  show ?thesis
    using ra i ws r2 b2
    by (auto simp: record_audio_def Let_def split: sum.splits bool.splits option.splits exn.splits if_splits)
qed

subsection \<open>Evaluating the model\<close>

lemmas record_defs = record_audio_def initialize_stream_def with_stream_def record_finally_def
  stream_active_def stream_stop_def stream_close_def stream_start_def set_status_def
  audio_callback_def np_array_def new_stream_def device_ok_def Let_def

lemma init_idle: "AudioRecorder_init (Inr 44100) {} Map.empty = Inr idle_world"
  by (simp add: AudioRecorder_init_def idle_world_def SAMPLE_RATE_def)

lemma record_one:
  "record_audio (device_ok [[[1]]]) DURATION idle_world =
     (Inr \<lparr>dtype = Float32, frames = [[1]]\<rparr>,
      idle_world\<lparr>stream := Some 0, audio_buffer := [[1]], current_db := 0,
        streams := [\<lparr>samplerate = 44100, channels = 1, blocksize = 4410,
                     status = Closed\<rparr>]\<rparr>)"
  by (simp add: record_defs idle_world_def calculate_db_def np_mean_square_def DB_MAX_def
      DB_MIN_def SAMPLE_RATE_def CHANNELS_def)

subsection \<open>The capture buffer\<close>

text \<open>
  Claim C6, as the code has it. The callback appends each block it is handed while a
  window is active, and a call of \<open>record\<close> during which nothing fails returns exactly
  the concatenation of those blocks in the order they were pushed. Returning the window
  does not reset the buffer: after the return it still holds the same samples. The
  buffer is reset at the entry of the next \<open>record\<close>, so a following call during which
  no block is pushed returns the empty array.
\<close>

theorem record_returns_pushed_chunks:
  assumes "open_raises env = None" "start_raises env = None" "body_raises env = None"
    and "open_raises env2 = None" "start_raises env2 = None" "body_raises env2 = None"
    and "delivered env2 = []"
  shows "case record_audio env d w of
           (r, w1) \<Rightarrow>
             r = Inr (np_array (concat (delivered env)))
           \<and> audio_buffer w1 = concat (delivered env)
           \<and> fst (record_audio env2 d' w1) = Inr (np_array [])"
proof -
  obtain r w1 where ra: "record_audio env d w = (r, w1)" by (cases "record_audio env d w")
  from ra record_audio_result[of env d w] assms(1-3)
  have r: "r = Inr (np_array (concat (delivered env)))" by simp
  from ra r record_audio_buffer[of env d w _ w1]
  have b: "audio_buffer w1 = concat (delivered env)" by simp
  from record_audio_result[of env2 d' w1] assms(4-7)
  have "fst (record_audio env2 d' w1) = Inr (np_array [])" by simp
  with ra r b show ?thesis by simp
qed

theorem record_returns_pushed_chunks_witness:
  "fst (record_audio (device_ok [[[1]], [[0]]]) DURATION idle_world)
     = Inr \<lparr>dtype = Float32, frames = [[1], [0]]\<rparr>
   \<and> audio_buffer (snd (record_audio (device_ok [[[1]], [[0]]]) DURATION idle_world))
     = [[1], [0]]
   \<and> fst (record_audio (device_ok []) DURATION
            (snd (record_audio (device_ok [[[1]], [[0]]]) DURATION idle_world)))
     = Inr \<lparr>dtype = Float64, frames = []\<rparr>"
proof -
  have h: "open_raises (device_ok [[[1]], [[0]]]) = None"
    "start_raises (device_ok [[[1]], [[0]]]) = None"
    "body_raises (device_ok [[[1]], [[0]]]) = None"
    "open_raises (device_ok []) = None" "start_raises (device_ok []) = None"
    "body_raises (device_ok []) = None" "delivered (device_ok []) = []"
    by (simp_all add: device_ok_def)
  from record_returns_pushed_chunks [OF h, where d = DURATION and w = idle_world and d' = DURATION]
  show ?thesis
    by (simp add: case_prod_beta np_array_def device_ok_def)
qed

text \<open>
  The claim as stated says that the drain resets the buffer to empty, so that a second
  drain before any new push returns nothing. After a window of one sample the buffer
  still holds that sample, and reading it again gives the same window.
\<close>

theorem drain_keeps_buffer_counterexample:
  "fst (record_audio (device_ok [[[1]]]) DURATION idle_world)
     = Inr \<lparr>dtype = Float32, frames = [[1]]\<rparr>
   \<and> audio_buffer (snd (record_audio (device_ok [[[1]]]) DURATION idle_world)) \<noteq> []
   \<and> np_array (audio_buffer (snd (record_audio (device_ok [[[1]]]) DURATION idle_world)))
     = \<lparr>dtype = Float32, frames = [[1]]\<rparr>"
  by (simp add: record_one np_array_def)

text \<open>
  Claim C10. Every call of \<open>record\<close> clears the buffer and switches \<open>is_recording\<close>
  off at entry, and switches it on only after the reset and before the stream is
  started. Hence, whatever the buffer held before and whatever the state of the flag,
  the window a call returns consists of exactly the blocks delivered during that call;
  the flag is off again when the call is over, however it ends; and a callback that
  fires while the flag is off changes nothing.
\<close>

theorem record_window_only_own_samples:
  "(record_audio env d w = (Inr a, w1) \<longrightarrow>
       a = np_array (concat (delivered env)) \<and> audio_buffer w1 = concat (delivered env))
   \<and> \<not> is_recording (snd (record_audio env d w))
   \<and> (\<not> is_recording w \<longrightarrow> audio_callback indata w = w)"
proof -
  have "a = np_array (concat (delivered env))" if ra: "record_audio env d w = (Inr a, w1)"
  proof -
    from ra have "fst (record_audio env d w) = Inr a" by simp
    then show ?thesis
      unfolding record_audio_result
      by (auto split: option.splits exn.splits)
  qed
  then show ?thesis
    using record_audio_buffer[of env d w a w1] record_audio_recording_off[of env d w]
    by (auto simp: audio_callback_def)
qed

theorem record_window_only_own_samples_witness:
  "audio_buffer (snd (record_audio (device_ok [[[1]]]) DURATION idle_world)) = [[1]]
   \<and> fst (record_audio (device_ok [[[0]]]) DURATION
            (snd (record_audio (device_ok [[[1]]]) DURATION idle_world)))
       = Inr \<lparr>dtype = Float32, frames = [[0]]\<rparr>
   \<and> audio_callback [[1]] (snd (record_audio (device_ok [[[1]]]) DURATION idle_world))
       = snd (record_audio (device_ok [[[1]]]) DURATION idle_world)"
proof -
  let ?w1 = "snd (record_audio (device_ok [[[1]]]) DURATION idle_world)"
  obtain r w2 where ra: "record_audio (device_ok [[[0]]]) DURATION ?w1 = (r, w2)"
    by (cases "record_audio (device_ok [[[0]]]) DURATION ?w1")
  have "fst (record_audio (device_ok [[[0]]]) DURATION ?w1) = Inr (np_array [[0]])"
    by (simp add: record_audio_result device_ok_def)
  with ra have r: "record_audio (device_ok [[[0]]]) DURATION ?w1 = (Inr (np_array [[0]]), w2)"
    by simp
  have off: "\<not> is_recording ?w1" by (simp add: record_audio_recording_off)
  from record_window_only_own_samples
         [of "device_ok [[[0]]]" DURATION ?w1 "np_array [[0]]" w2 "[[1]]"] r off
  have "audio_callback [[1]] ?w1 = ?w1" by simp
  moreover have "audio_buffer ?w1 = [[1]]" by (simp add: record_one)
  moreover from r have "fst (record_audio (device_ok [[[0]]]) DURATION ?w1)
       = Inr \<lparr>dtype = Float32, frames = [[0]]\<rparr>"
    by (simp add: np_array_def)
  ultimately show ?thesis by simp
qed

subsection \<open>Failure paths of record\<close>

text \<open>
  Claim C3 says that every failure of \<open>record\<close> leaves the stream closed. The code
  closes the stream in its \<open>finally\<close> block only when the stream is active. When
  the stream has been opened and \<open>start()\<close> raises, the error is propagated and the
  buffer is empty, but the stream is open and not active, so it is not closed; the
  next call of \<open>record\<close>, finding it inactive, opens a second stream and drops the
  reference to the first, which stays open.
\<close>

theorem failed_start_leaves_stream_open:
  "fst (record_audio device_start_fails DURATION idle_world)
     = Inl (Exception ''Error starting stream'')
   \<and> audio_buffer (snd (record_audio device_start_fails DURATION idle_world)) = []
   \<and> map status (streams (snd (record_audio device_start_fails DURATION idle_world)))
     = [Stopped]
   \<and> map status (streams (snd (record_audio (device_ok [[[1]]]) DURATION
                               (snd (record_audio device_start_fails DURATION idle_world)))))
     = [Stopped, Closed]"
  by (simp add: record_defs device_start_fails_def idle_world_def)

subsection \<open>The saved file\<close>

text \<open>
  Claim C2 says that the file written holds as many 16-bit frames as the window has
  samples. A window of one \<open>float32\<close> sample, as \<open>record\<close> returns it, is
  written under a header of one channel, two bytes per sample and 44100 Hz, and the
  directory is created; but the bytes written are those of the \<open>float32\<close> array,
  four per sample, so the file holds two frames.
\<close>

theorem save_audio_frame_count:
  "fst (record_audio (device_ok [[[1]]]) DURATION idle_world)
     = Inr \<lparr>dtype = Float32, frames = [[1]]\<rparr>
   \<and> (case save_audio disk_ok \<lparr>dtype = Float32, frames = [[1]]\<rparr>
              ''gunshot_20240102_030405.wav'' idle_world of
         (r, w) \<Rightarrow>
           r = Inr ''recordings/gunshot_20240102_030405.wav''
         \<and> ''recordings/'' \<in> dirs w
         \<and> files w ''recordings/gunshot_20240102_030405.wav''
             = Some \<lparr> nchannels = 1, sampwidth = 2, framerate = 44100, nframes = 2,
                      payload = \<lparr>dtype = Float32, frames = [[1]]\<rparr> \<rparr>)"
proof -
  have window: "fst (record_audio (device_ok [[[1]]]) DURATION idle_world)
     = Inr \<lparr>dtype = Float32, frames = [[1]]\<rparr>"
    by (simp add: record_one)
  have saved: "save_audio disk_ok \<lparr>dtype = Float32, frames = [[1]]\<rparr>
              ''gunshot_20240102_030405.wav'' idle_world
     = (Inr ''recordings/gunshot_20240102_030405.wav'',
        idle_world\<lparr>dirs := {''recordings/''},
          files := [''recordings/gunshot_20240102_030405.wav'' \<mapsto>
             \<lparr> nchannels = 1, sampwidth = 2, framerate = 44100, nframes = 2,
               payload = \<lparr>dtype = Float32, frames = [[1]]\<rparr> \<rparr>]\<rparr>)"
    by (simp add: save_audio_def disk_ok_def SAVE_PATH_def os_path_join_def nbytes_def
        itemsize_def CHANNELS_def SAMPLE_RATE_def idle_world_def Let_def)
  from window saved show ?thesis by simp
qed

subsection \<open>The monitoring loop\<close>

lemma record_audio_interrupt:
  assumes "record_audio env d w = (Inl KeyboardInterrupt, w1)"
  shows "open_raises env = Some KeyboardInterrupt \<or> start_raises env = Some KeyboardInterrupt
         \<or> body_raises env = Some KeyboardInterrupt"
proof -
  from assms have "fst (record_audio env d w) = Inl KeyboardInterrupt" by simp
  then show ?thesis
    unfolding record_audio_result
    by (auto split: option.splits exn.splits)
qed

lemma save_audio_interrupt:
  assumes "save_audio dk a fn w = (Inl KeyboardInterrupt, w1)"
  shows "makedirs_raises dk = Some KeyboardInterrupt \<or> wave_open_raises dk = Some KeyboardInterrupt"
  using assms by (auto simp: save_audio_def Let_def split: option.splits)

lemma loop_body_interrupt:
  assumes "loop_body classify env w = (Some KeyboardInterrupt, evs, w1)"
    and "\<forall>a sr. classify a sr \<noteq> Inl KeyboardInterrupt"
  shows "interrupted env"
proof -
  obtain r wr where ra: "record_audio (capture env) DURATION w = (r, wr)"
    by (cases "record_audio (capture env) DURATION w")
  show ?thesis
  proof (cases r)
    case (Inl e)
    with assms(1) ra have "e = KeyboardInterrupt" by (simp add: loop_body_def)
    with Inl ra record_audio_interrupt[of "capture env" DURATION w wr]
    show ?thesis by (auto simp: interrupted_def)
  next
    case (Inr a)
    obtain s ws where sa: "save_audio (disk env) a (''gunshot_'' @ strftime (now env) @ ''.wav'') wr = (s, ws)"
      by (cases "save_audio (disk env) a (''gunshot_'' @ strftime (now env) @ ''.wav'') wr")
    from assms ra Inr sa have "s = Inl KeyboardInterrupt"
      by (auto simp: loop_body_def zero_size_def split: if_splits sum.splits)
    with sa save_audio_interrupt[of "disk env" a _ wr ws]
    show ?thesis by (auto simp: interrupted_def)
  qed
qed

lemma main_iteration_continues:
  assumes "\<not> interrupted env" and "\<forall>a sr. classify a sr \<noteq> Inl KeyboardInterrupt"
  shows "fst (snd (main_iteration classify env w)) = False"
proof -
  obtain r evs w1 where lb: "loop_body classify env w = (r, evs, w1)"
    by (cases "loop_body classify env w")
  show ?thesis
  proof (cases r)
    case None
    with lb show ?thesis by (simp add: main_iteration_def)
  next
    case (Some e)
    show ?thesis
    proof (cases e)
      case (Exception m)
      with Some lb assms(1) show ?thesis
        by (simp add: main_iteration_def interrupted_def)
    next
      case KeyboardInterrupt
      with Some lb loop_body_interrupt[of classify env w evs w1] assms show ?thesis by simp
    qed
  qed
qed

lemma main_loop_running:
  assumes "\<forall>a sr. classify a sr \<noteq> Inl KeyboardInterrupt"
  shows "list_all (\<lambda>env. \<not> interrupted env) envs \<Longrightarrow> fst (snd (main_loop classify envs w)) = Running"
proof (induction envs arbitrary: w)
  case Nil
  then show ?case by simp
next
  case (Cons env envs)
  obtain evs b w1 where mi: "main_iteration classify env w = (evs, b, w1)"
    by (cases "main_iteration classify env w")
  from Cons.prems main_iteration_continues[OF _ assms, of env w] mi have "b = False" by simp
  moreover from Cons have "fst (snd (main_loop classify envs w1)) = Running" by simp
  ultimately show ?case using mi by (cases "main_loop classify envs w1") simp
qed

text \<open>
  Claim C4. In every iteration of the monitoring loop, when \<open>record\<close> raises an error
  or the classifier call raises an error, the loop logs the error, waits 1000 ms and, unless
  the wait itself is interrupted, goes on with the next iteration from the state the
  failed one left. The loop ends only on an external interrupt: against surroundings in
  which no call is interrupted, it is still running after any number of iterations,
  however many of them failed.
\<close>

theorem window_failure_keeps_loop_running:
  "(record_audio (capture env) DURATION w = (Inl (Exception m), w1) \<longrightarrow>
      main_iteration classify env w
        = ([Error_logged m, Reinit_logged, Slept 1000], backoff_interrupted env, w1))
   \<and> (record_audio (capture env) DURATION w = (Inr a, w1) \<and> concat (frames a) \<noteq> []
        \<and> classify a SAMPLE_RATE = Inl (Exception m) \<longrightarrow>
      main_iteration classify env w
        = ([Error_logged m, Reinit_logged, Slept 1000], backoff_interrupted env, w1))
   \<and> (main_iteration classify env w = (evs, False, w1) \<longrightarrow>
      main_loop classify (env # envs) w
        = (evs @ fst (main_loop classify envs w1), snd (main_loop classify envs w1)))
   \<and> ((\<forall>a sr. classify a sr \<noteq> Inl KeyboardInterrupt)
        \<and> list_all (\<lambda>env. \<not> interrupted env) envs \<longrightarrow>
      fst (snd (main_loop classify envs w)) = Running)"
proof -
  have a: "main_iteration classify env w
        = ([Error_logged m, Reinit_logged, Slept 1000], backoff_interrupted env, w1)"
    if "record_audio (capture env) DURATION w = (Inl (Exception m), w1)"
    using that by (simp add: main_iteration_def loop_body_def)
  have b: "main_iteration classify env w
        = ([Error_logged m, Reinit_logged, Slept 1000], backoff_interrupted env, w1)"
    if "record_audio (capture env) DURATION w = (Inr a, w1)" "concat (frames a) \<noteq> []"
       "classify a SAMPLE_RATE = Inl (Exception m)"
    using that by (simp add: main_iteration_def loop_body_def del: concat_eq_Nil_conv)
  have c: "main_loop classify (env # envs) w
        = (evs @ fst (main_loop classify envs w1), snd (main_loop classify envs w1))"
    if "main_iteration classify env w = (evs, False, w1)"
    using that by (cases "main_loop classify envs w1") simp
  from a b c main_loop_running[of classify envs w] show ?thesis by blast
qed

theorem window_failure_keeps_loop_running_witness:
  "main_iteration (\<lambda>a sr. Inr 0)
      \<lparr> capture = device_start_fails, disk = disk_ok, now = at_time,
        backoff_interrupted = False \<rparr> idle_world
     = ([Error_logged ''Error starting stream'', Reinit_logged, Slept 1000], False,
        snd (record_audio device_start_fails DURATION idle_world))
   \<and> main_iteration (\<lambda>a sr. Inl (Exception ''inference failed''))
      \<lparr> capture = device_ok [[[1]]], disk = disk_ok, now = at_time,
        backoff_interrupted = False \<rparr> idle_world
     = ([Error_logged ''inference failed'', Reinit_logged, Slept 1000], False,
        snd (record_audio (device_ok [[[1]]]) DURATION idle_world))
   \<and> fst (snd (main_loop (\<lambda>a sr. Inr 0)
        [\<lparr> capture = device_start_fails, disk = disk_ok, now = at_time,
            backoff_interrupted = False \<rparr>,
         \<lparr> capture = device_start_fails, disk = disk_ok, now = at_time,
            backoff_interrupted = False \<rparr>] idle_world)) = Running"
proof -
  let ?env = "\<lparr> capture = device_start_fails, disk = disk_ok, now = at_time,
                 backoff_interrupted = False \<rparr>"
  let ?env2 = "\<lparr> capture = device_ok [[[1]]], disk = disk_ok, now = at_time,
                  backoff_interrupted = False \<rparr>"
  let ?w1 = "snd (record_audio device_start_fails DURATION idle_world)"
  let ?w2 = "snd (record_audio (device_ok [[[1]]]) DURATION idle_world)"
  have "fst (record_audio device_start_fails DURATION idle_world)
          = Inl (Exception ''Error starting stream'')"
    by (simp add: record_audio_result device_start_fails_def)
  then have h1: "record_audio (capture ?env) DURATION idle_world
                   = (Inl (Exception ''Error starting stream''), ?w1)"
    by (cases "record_audio device_start_fails DURATION idle_world") simp
  have h2: "record_audio (capture ?env2) DURATION idle_world
              = (Inr \<lparr>dtype = Float32, frames = [[1]]\<rparr>, ?w2)"
    by (simp add: record_one)
  have h3: "concat (frames \<lparr>dtype = Float32, frames = [[1::real]]\<rparr>) \<noteq> []" by simp
  have h4: "\<forall>a sr. (\<lambda>a sr. Inr 0 :: exn + real) a sr \<noteq> Inl KeyboardInterrupt" by simp
  have h5: "list_all (\<lambda>env. \<not> interrupted env) [?env, ?env]"
    by (simp add: interrupted_def device_start_fails_def disk_ok_def)
  from window_failure_keeps_loop_running
         [of ?env idle_world "''Error starting stream''" ?w1 "\<lambda>a sr. Inr 0"] h1
  have a: "main_iteration (\<lambda>a sr. Inr 0) ?env idle_world
     = ([Error_logged ''Error starting stream'', Reinit_logged, Slept 1000], False, ?w1)"
    by simp
  from window_failure_keeps_loop_running
         [of ?env2 idle_world "''inference failed''" ?w2
             "\<lambda>a sr. Inl (Exception ''inference failed'')"
             "\<lparr>dtype = Float32, frames = [[1]]\<rparr>"] h2 h3
  have b: "main_iteration (\<lambda>a sr. Inl (Exception ''inference failed'')) ?env2 idle_world
     = ([Error_logged ''inference failed'', Reinit_logged, Slept 1000], False, ?w2)"
    by simp
  from window_failure_keeps_loop_running
         [where classify = "\<lambda>a sr. Inr 0" and envs = "[?env, ?env]" and w = idle_world] h4 h5
  have c: "fst (snd (main_loop (\<lambda>a sr. Inr 0) [?env, ?env] idle_world)) = Running"
    by blast
  from a b c show ?thesis by simp
qed

subsection \<open>The decision to persist\<close>

lemma save_audio_ok:
  assumes "makedirs_raises dk = None" "wave_open_raises dk = None"
  shows "save_audio dk a fn w =
     (Inr (os_path_join SAVE_PATH fn),
      w\<lparr>dirs := insert SAVE_PATH (dirs w),
        files := (files w)(os_path_join SAVE_PATH fn \<mapsto>
           \<lparr> nchannels = CHANNELS, sampwidth = 2, framerate = SAMPLE_RATE,
             nframes = nbytes a div (2 * CHANNELS), payload = a \<rparr>)\<rparr>)"
  using assms by (simp add: save_audio_def Let_def)

lemma strftime_length: "length (strftime t) = 15"
  by (simp add: strftime_def four_digits_def two_digits_def)

lemma strftime_at_time: "strftime at_time = ''20240102_030405''"
  by (simp add: strftime_def four_digits_def two_digits_def digit_def at_time_def)

text \<open>
  Claim C5, as the code has it. For every window that \<open>record\<close> returns with at least
  one sample, and a file system that accepts the write, a recording is persisted if and
  only if the classifier's score is strictly greater than 0.2. The file is named
  \<open>gunshot_<YYYYMMDD_HHMMSS>.wav\<close> after the current time (fifteen characters of
  timestamp) and lies in \<open>recordings/\<close>. When the score is at most 0.2 the files are
  those there were before.
\<close>

theorem persist_iff_above_threshold:
  assumes rec: "record_audio (capture env) DURATION w = (Inr a, w1)"
    and nonempty: "concat (frames a) \<noteq> []"
    and score: "classify a SAMPLE_RATE = Inr p"
    and dk: "makedirs_raises (disk env) = None" "wave_open_raises (disk env) = None"
  shows "case main_iteration classify env w of
           (evs, stop, w2) \<Rightarrow>
             (Gunshot_saved (''recordings/gunshot_'' @ strftime (now env) @ ''.wav'') \<in> set evs
                \<longleftrightarrow> p > 0.2)
           \<and> (p > 0.2 \<longrightarrow>
                 evs = [Probability_printed p,
                        Gunshot_saved (''recordings/gunshot_'' @ strftime (now env) @ ''.wav'')]
               \<and> files w2 = (files w)(''recordings/gunshot_'' @ strftime (now env) @ ''.wav'' \<mapsto>
                    \<lparr> nchannels = 1, sampwidth = 2, framerate = 44100,
                      nframes = nbytes a div 2, payload = a \<rparr>))
           \<and> (\<not> p > 0.2 \<longrightarrow> evs = [Probability_printed p] \<and> files w2 = files w)
           \<and> \<not> stop
           \<and> length (strftime (now env)) = 15"
proof -
  from rec record_audio_files[of "capture env" DURATION w] have f: "files w1 = files w" by simp
  show ?thesis
  proof (cases "p > 0.2")
    case True
    with rec nonempty score f show ?thesis
      by (simp add: main_iteration_def loop_body_def save_audio_ok[OF dk] os_path_join_def
          SAVE_PATH_def strftime_length CHANNELS_def SAMPLE_RATE_def del: concat_eq_Nil_conv)
  next
    case False
    with rec nonempty score f show ?thesis
      by (simp add: main_iteration_def loop_body_def strftime_length del: concat_eq_Nil_conv)
  qed
qed

theorem persist_iff_above_threshold_witness:
  "fst (main_iteration (\<lambda>a sr. Inr 0.9)
          \<lparr> capture = device_ok [[[1]]], disk = disk_ok, now = at_time,
            backoff_interrupted = False \<rparr> idle_world)
     = [Probability_printed 0.9, Gunshot_saved ''recordings/gunshot_20240102_030405.wav'']
   \<and> fst (main_iteration (\<lambda>a sr. Inr 0.2)
          \<lparr> capture = device_ok [[[1]]], disk = disk_ok, now = at_time,
            backoff_interrupted = False \<rparr> idle_world)
     = [Probability_printed 0.2]
   \<and> files (snd (snd (main_iteration (\<lambda>a sr. Inr 0.2)
          \<lparr> capture = device_ok [[[1]]], disk = disk_ok, now = at_time,
            backoff_interrupted = False \<rparr> idle_world)))
     = Map.empty"
proof -
  let ?env = "\<lparr> capture = device_ok [[[1]]], disk = disk_ok, now = at_time,
                 backoff_interrupted = False \<rparr>"
  let ?a = "\<lparr>dtype = Float32, frames = [[1::real]]\<rparr>"
  let ?w1 = "snd (record_audio (device_ok [[[1]]]) DURATION idle_world)"
  have h1: "record_audio (capture ?env) DURATION idle_world = (Inr ?a, ?w1)"
    by (simp add: record_one)
  have h2: "concat (frames ?a) \<noteq> []" by simp
  have h3: "makedirs_raises (disk ?env) = None" "wave_open_raises (disk ?env) = None"
    by (simp_all add: disk_ok_def)
  have hi: "(\<lambda>a sr. Inr 0.9 :: exn + real) ?a SAMPLE_RATE = Inr 0.9" by simp
  have lo: "(\<lambda>a sr. Inr 0.2 :: exn + real) ?a SAMPLE_RATE = Inr 0.2" by simp
  have e: "files idle_world = Map.empty" by (simp add: idle_world_def)
  from persist_iff_above_threshold [OF h1 h2 hi h3]
  have a: "fst (main_iteration (\<lambda>a sr. Inr 0.9) ?env idle_world)
     = [Probability_printed 0.9, Gunshot_saved ''recordings/gunshot_20240102_030405.wav'']"
    by (simp add: case_prod_beta strftime_at_time)
  from persist_iff_above_threshold [OF h1 h2 lo h3] e
  have b: "fst (main_iteration (\<lambda>a sr. Inr 0.2) ?env idle_world) = [Probability_printed 0.2]
     \<and> files (snd (snd (main_iteration (\<lambda>a sr. Inr 0.2) ?env idle_world))) = Map.empty"
    by (simp add: case_prod_beta)
  from a b show ?thesis by simp
qed

text \<open>
  The claim as stated names the file \<open>event_<YYYYMMDD_HHMMSS>.wav\<close>. A window scored 0.9
  at 2024-01-02 03:04:05 is saved as \<open>gunshot_20240102_030405.wav\<close>, and no file of
  the stated name exists afterwards.
\<close>

theorem event_filename_counterexample:
  "fst (main_iteration (\<lambda>a sr. Inr 0.9)
          \<lparr> capture = device_ok [[[1]]], disk = disk_ok, now = at_time,
            backoff_interrupted = False \<rparr> idle_world)
     = [Probability_printed 0.9, Gunshot_saved ''recordings/gunshot_20240102_030405.wav'']
   \<and> dom (files (snd (snd (main_iteration (\<lambda>a sr. Inr 0.9)
          \<lparr> capture = device_ok [[[1]]], disk = disk_ok, now = at_time,
            backoff_interrupted = False \<rparr> idle_world))))
     = {''recordings/gunshot_20240102_030405.wav''}
   \<and> files (snd (snd (main_iteration (\<lambda>a sr. Inr 0.9)
          \<lparr> capture = device_ok [[[1]]], disk = disk_ok, now = at_time,
            backoff_interrupted = False \<rparr> idle_world)))
        ''recordings/event_20240102_030405.wav'' = None"
proof -
  have "main_iteration (\<lambda>a sr. Inr 0.9)
          \<lparr> capture = device_ok [[[1]]], disk = disk_ok, now = at_time,
            backoff_interrupted = False \<rparr> idle_world
     = ([Probability_printed 0.9, Gunshot_saved ''recordings/gunshot_20240102_030405.wav''],
        False,
        (snd (record_audio (device_ok [[[1]]]) DURATION idle_world))
          \<lparr>dirs := {''recordings/''},
            files := [''recordings/gunshot_20240102_030405.wav'' \<mapsto>
              \<lparr> nchannels = 1, sampwidth = 2, framerate = 44100, nframes = 2,
                payload = \<lparr>dtype = Float32, frames = [[1]]\<rparr> \<rparr>]\<rparr>)"
    by (simp add: main_iteration_def loop_body_def record_one save_audio_def disk_ok_def
        strftime_at_time os_path_join_def SAVE_PATH_def nbytes_def itemsize_def CHANNELS_def
        SAMPLE_RATE_def Let_def)
       (simp add: idle_world_def)
  then show ?thesis by simp
qed

subsection \<open>The sample rate\<close>

text \<open>
  Claim C1 says that when the device's native rate differs from 44100 the adopted rate
  reaches the stream, the classifier and the saved file. On a device whose default
  rate is 48000 the constructor stores 48000 in \<open>LOCAL_SAMPLE_RATE\<close>, which nothing
  reads. In the first iteration, with a classifier stub that returns the rate it is
  given divided by 100000, the stream is opened at 44100, the printed score is 0.441,
  so the classifier was given 44100, and the header of the saved file says 44100.
\<close>

theorem adopted_rate_not_propagated:
  "AudioRecorder_init (Inr 48000) {} Map.empty
     = Inr (idle_world\<lparr>LOCAL_SAMPLE_RATE := Some 48000\<rparr>)
   \<and> (case main_iteration (\<lambda>a sr. Inr (real_of_int sr / 100000))
              \<lparr> capture = device_ok [[[1]]], disk = disk_ok, now = at_time,
                backoff_interrupted = False \<rparr>
              (idle_world\<lparr>LOCAL_SAMPLE_RATE := Some 48000\<rparr>) of
         (evs, stop, w1) \<Rightarrow>
           LOCAL_SAMPLE_RATE w1 = Some 48000
         \<and> map samplerate (streams w1) = [44100]
         \<and> evs = [Probability_printed 0.441,
                   Gunshot_saved ''recordings/gunshot_20240102_030405.wav'']
         \<and> map_option framerate (files w1 ''recordings/gunshot_20240102_030405.wav'')
             = Some 44100)"
proof -
  have init: "AudioRecorder_init (Inr 48000) {} Map.empty
     = Inr (idle_world\<lparr>LOCAL_SAMPLE_RATE := Some 48000\<rparr>)"
    by (simp add: AudioRecorder_init_def idle_world_def SAMPLE_RATE_def py_int_def)
  have rec: "record_audio (device_ok [[[1]]]) DURATION
               (idle_world\<lparr>LOCAL_SAMPLE_RATE := Some 48000\<rparr>)
     = (Inr \<lparr>dtype = Float32, frames = [[1]]\<rparr>,
        idle_world\<lparr>LOCAL_SAMPLE_RATE := Some 48000, stream := Some 0,
          audio_buffer := [[1]], current_db := 0,
          streams := [\<lparr>samplerate = 44100, channels = 1, blocksize = 4410,
                       status = Closed\<rparr>]\<rparr>)"
    by (simp add: record_defs idle_world_def calculate_db_def np_mean_square_def DB_MAX_def
        DB_MIN_def SAMPLE_RATE_def CHANNELS_def)
  have iter: "main_iteration (\<lambda>a sr. Inr (real_of_int sr / 100000))
              \<lparr> capture = device_ok [[[1]]], disk = disk_ok, now = at_time,
                backoff_interrupted = False \<rparr>
              (idle_world\<lparr>LOCAL_SAMPLE_RATE := Some 48000\<rparr>)
     = ([Probability_printed 0.441, Gunshot_saved ''recordings/gunshot_20240102_030405.wav''],
        False,
        idle_world\<lparr>LOCAL_SAMPLE_RATE := Some 48000, stream := Some 0,
          audio_buffer := [[1]], current_db := 0,
          streams := [\<lparr>samplerate = 44100, channels = 1, blocksize = 4410,
                       status = Closed\<rparr>],
          dirs := {''recordings/''},
          files := [''recordings/gunshot_20240102_030405.wav'' \<mapsto>
              \<lparr> nchannels = 1, sampwidth = 2, framerate = 44100, nframes = 2,
                payload = \<lparr>dtype = Float32, frames = [[1]]\<rparr> \<rparr>]\<rparr>)"
    by (simp add: main_iteration_def loop_body_def rec save_audio_def disk_ok_def
        strftime_at_time os_path_join_def SAVE_PATH_def nbytes_def itemsize_def CHANNELS_def
        SAMPLE_RATE_def Let_def)
       (simp add: idle_world_def)
  from init iter show ?thesis by simp
qed

subsection \<open>The classifier wrapper\<close>

lemma np_max_Max:
  assumes "np_max xs = Inr p"
  shows "xs \<noteq> [] \<and> p = Max (set xs)"
proof (cases xs)
  case Nil
  with assms show ?thesis by (simp add: zero_size_def)
next
  case (Cons y ys)
  with assms have "p = fold max ys y" by simp
  also have "\<dots> = Max (set (y # ys))" by (rule Max.set_eq_fold [symmetric])
  finally show ?thesis using Cons by simp
qed

lemma detect_not_error: "detect det a sr \<noteq> Inl (Exception m)"
  by (simp add: detect_def split: sum.splits exn.splits)

lemma process_audio_interrupt:
  "process_audio det a sr = Inl KeyboardInterrupt \<Longrightarrow> \<exists>x r t. resample det x r t = Inl KeyboardInterrupt"
  by (cases "concat (frames a)")
     (auto simp: process_audio_def Let_def zero_size_def split: sum.splits if_splits)

lemma detect_body_interrupt:
  assumes "detect_body det a sr = Inl KeyboardInterrupt"
  shows "(\<exists>x. model det x = Inl KeyboardInterrupt) \<or> (\<exists>x r t. resample det x r t = Inl KeyboardInterrupt)"
proof (cases "process_audio det a sr")
  case (Inl e)
  with assms have "e = KeyboardInterrupt" by (simp add: detect_body_def)
  with Inl process_audio_interrupt show ?thesis by blast
next
  case (Inr x)
  show ?thesis
  proof (cases "model det x")
    case (Inl e)
    with Inr assms have "e = KeyboardInterrupt" by (simp add: detect_body_def)
    with Inl show ?thesis by blast
  next
    case sc: (Inr scores)
    show ?thesis
    proof (cases "concat (map (\<lambda>row. map (\<lambda>i. row ! i) gunshot_classes) scores)")
      case Nil
      with Inr sc assms show ?thesis
        by (simp add: detect_body_def Let_def zero_size_def split: if_splits del: concat_eq_Nil_conv)
    next
      case (Cons y ys)
      with Inr sc assms show ?thesis
        by (simp add: detect_body_def Let_def zero_size_def split: if_splits del: concat_eq_Nil_conv)
    qed
  qed
qed


lemma detect_body_result:
  assumes "detect_body det a sr = Inr p"
  shows "\<exists>x scores. process_audio det a sr = Inr x \<and> model det x = Inr scores
           \<and> p = Max (set (concat (map (\<lambda>row. map (\<lambda>i. row ! i) gunshot_classes) scores)))"
proof (cases "process_audio det a sr")
  case (Inl e)
  with assms show ?thesis by (simp add: detect_body_def)
next
  case (Inr x)
  show ?thesis
  proof (cases "model det x")
    case (Inl e)
    with Inr assms show ?thesis by (simp add: detect_body_def)
  next
    case sc: (Inr scores)
    let ?gs = "concat (map (\<lambda>row. map (\<lambda>i. row ! i) gunshot_classes) scores)"
    from Inr sc assms have "np_max ?gs = Inr p"
      by (simp add: detect_body_def Let_def split: if_splits sum.splits del: concat_eq_Nil_conv)
    from np_max_Max[OF this] Inr sc show ?thesis by simp
  qed
qed

lemma detect_empty: "detect det (np_array []) sr = Inr 0"
  by (simp add: detect_def detect_body_def process_audio_def np_array_def zero_size_def)

lemma detect_body_fails:
  "detect_body det_fails \<lparr>dtype = Float32, frames = [[1]]\<rparr> SAMPLE_RATE
     = Inl (Exception ''inference failed'')"
  by (simp add: detect_body_def process_audio_def det_fails_def SAMPLE_RATE_def Let_def)

lemma detect_body_scores:
  "detect_body det_scores \<lparr>dtype = Float32, frames = [[1]]\<rparr> SAMPLE_RATE = Inr 0.9"
  by (simp add: detect_body_def process_audio_def det_scores_def SAMPLE_RATE_def Let_def
      gunshot_classes_def nth_append argmax_def)

text \<open>
  Claim C9. \<open>detect\<close> never passes an error on to its caller. When the body of its
  \<open>try\<close> returns, \<open>detect\<close> returns that value, the largest score of the three
  gunshot columns of the matrix the network returned; when the body raises an error, in
  the processing or in the inference, \<open>detect\<close> returns 0; for the empty input it
  returns 0. Unless the network or the resampler is interrupted by the user,
  \<open>detect\<close> returns a score. So in the loop a failing classifier is a window scored
  0: the score is printed, nothing is saved, and the error handler with its wait is not
  entered.
\<close>

theorem detect_never_raises_error:
  "detect det a sr \<noteq> Inl (Exception m)
   \<and> (detect_body det a sr = Inr p \<longrightarrow>
        detect det a sr = Inr p
        \<and> (\<exists>x scores. process_audio det a sr = Inr x \<and> model det x = Inr scores
              \<and> p = Max (set (concat (map (\<lambda>row. map (\<lambda>i. row ! i) gunshot_classes)
                                          scores)))))
   \<and> (detect_body det a sr = Inl (Exception m) \<longrightarrow> detect det a sr = Inr 0)
   \<and> detect det (np_array []) sr = Inr 0
   \<and> ((\<forall>x. model det x \<noteq> Inl KeyboardInterrupt)
        \<and> (\<forall>x r t. resample det x r t \<noteq> Inl KeyboardInterrupt) \<longrightarrow>
        (\<exists>q. detect det a sr = Inr q))
   \<and> (record_audio (capture env) DURATION w = (Inr a, w1) \<and> concat (frames a) \<noteq> []
        \<and> detect_body det a SAMPLE_RATE = Inl (Exception m) \<longrightarrow>
        main_iteration (detect det) env w = ([Probability_printed 0], False, w1))"
proof -
  have c2: "detect det a sr = Inr p" if "detect_body det a sr = Inr p"
    using that by (simp add: detect_def)
  have c3: "detect det a r = Inr 0" if "detect_body det a r = Inl (Exception m)" for r
    using that by (simp add: detect_def)
  have c5: "\<exists>q. detect det a sr = Inr q"
    if "\<forall>x. model det x \<noteq> Inl KeyboardInterrupt"
       "\<forall>x r t. resample det x r t \<noteq> Inl KeyboardInterrupt"
  proof (cases "detect det a sr")
    case (Inl e)
    show ?thesis
    proof (cases e)
      case (Exception m')
      with Inl detect_not_error show ?thesis by blast
    next
      case KeyboardInterrupt
      with Inl have "detect_body det a sr = Inl KeyboardInterrupt"
        by (simp add: detect_def split: sum.splits exn.splits)
      from detect_body_interrupt[OF this] that show ?thesis by blast
    qed
  next
    case (Inr q)
    then show ?thesis by blast
  qed
  have c6: "main_iteration (detect det) env w = ([Probability_printed 0], False, w1)"
    if "record_audio (capture env) DURATION w = (Inr a, w1)" "concat (frames a) \<noteq> []"
       "detect_body det a SAMPLE_RATE = Inl (Exception m)"
    using that c3[of SAMPLE_RATE]
    by (simp add: main_iteration_def loop_body_def del: concat_eq_Nil_conv)
  from detect_not_error c2 detect_body_result c3 detect_empty c5 c6 show ?thesis
    by blast
qed

theorem detect_never_raises_error_witness:
  "detect det_fails \<lparr>dtype = Float32, frames = [[1]]\<rparr> SAMPLE_RATE = Inr 0
   \<and> detect det_scores \<lparr>dtype = Float32, frames = [[1]]\<rparr> SAMPLE_RATE = Inr 0.9
   \<and> main_iteration (detect det_fails)
        \<lparr> capture = device_ok [[[1]]], disk = disk_ok, now = at_time,
          backoff_interrupted = False \<rparr> idle_world
       = ([Probability_printed 0], False,
          snd (record_audio (device_ok [[[1]]]) DURATION idle_world))"
proof -
  let ?env = "\<lparr> capture = device_ok [[[1]]], disk = disk_ok, now = at_time,
                 backoff_interrupted = False \<rparr>"
  let ?a = "\<lparr>dtype = Float32, frames = [[1::real]]\<rparr>"
  let ?w1 = "snd (record_audio (device_ok [[[1]]]) DURATION idle_world)"
  have h1: "record_audio (capture ?env) DURATION idle_world = (Inr ?a, ?w1)"
    by (simp add: record_one)
  have h2: "concat (frames ?a) \<noteq> []" by simp
  have h3: "\<forall>x. model det_scores x \<noteq> Inl KeyboardInterrupt"
    "\<forall>x r t. resample det_scores x r t \<noteq> Inl KeyboardInterrupt"
    by (simp_all add: det_scores_def)
  from detect_never_raises_error
         [of det_fails ?a SAMPLE_RATE "''inference failed''" _ ?env idle_world ?w1]
       detect_body_fails h1 h2
  have a: "detect det_fails ?a SAMPLE_RATE = Inr 0
           \<and> main_iteration (detect det_fails) ?env idle_world
               = ([Probability_printed 0], False, ?w1)"
    by blast
  from detect_never_raises_error [of det_scores ?a SAMPLE_RATE _ "0.9"]
       detect_body_scores h3
  have b: "detect det_scores ?a SAMPLE_RATE = Inr 0.9" by blast
  from a b show ?thesis by simp
qed

end
